theory Spec2Isabelle
  imports Main "HOL-Library.Sublist" "HOL-Library.Multiset"
begin

section \<open>The consultation document (models/Consultation.js)\<close>

text \<open>
  Strings are lists of code units below 256. Dates are milliseconds since the epoch.
  The status fields are JavaScript strings: the schema's \<^verbatim>\<open>enum\<close> is a validator that runs
  when a document is written, not a type, so a status is modelled as a \<open>string\<close> and the
  enum as a list the validators consult.

  An object id is kept as the string \<^verbatim>\<open>toString()\<close> gives for it: 24 hexadecimal digits in
  lower case. Where the code hands the mapper a string for a path of type \<^verbatim>\<open>ObjectId\<close>, the
  mapper casts it: \<open>castObjectId\<close> accepts a string of 24 hexadecimal digits, in either
  case, and rejects every other string. (Older releases of the driver also read any string
  of 12 characters as twelve raw bytes; the model follows the rule of the current ones.)
\<close>

type_synonym objectId = string
type_synonym date = nat

definition isHexDigit :: "char \<Rightarrow> bool" where
  "isHexDigit ch \<longleftrightarrow> ch \<in> set ''0123456789abcdefABCDEF''"

definition lowerHex :: "char \<Rightarrow> char" where
  "lowerHex ch =
     (if ch = CHR ''A'' then CHR ''a'' else if ch = CHR ''B'' then CHR ''b''
      else if ch = CHR ''C'' then CHR ''c'' else if ch = CHR ''D'' then CHR ''d''
      else if ch = CHR ''E'' then CHR ''e'' else if ch = CHR ''F'' then CHR ''f''
      else ch)"

definition castObjectId :: "string \<Rightarrow> objectId option" where
  "castObjectId s =
     (if length s = 24 \<and> list_all isHexDigit s then Some (map lowerHex s) else None)"

definition isObjectId :: "string \<Rightarrow> bool" where
  "isObjectId s \<longleftrightarrow> castObjectId s = Some s"

record statusHistoryEntry =
  entry_status :: string
  changedBy :: "objectId option"
  reason :: string
  changedAt :: date

record consultation =
  cid :: objectId
  user :: objectId
  service :: string
  projectType :: string
  description :: string
  location :: string
  preferredDate :: date
  status :: string
  statusHistory :: "statusHistoryEntry list"
  isUrgent :: bool
  createdAt :: date

text \<open>
  \<open>cid\<close> is the document's \<^verbatim>\<open>_id\<close>, \<open>entry_status\<close> the \<^verbatim>\<open>status\<close> field of a history
  entry. \<open>changedBy\<close> is \<open>None\<close> in an entry that was given no value the mapper could cast
  to an object id. \<^verbatim>\<open>updatedAt\<close> and the version key, which the mapper maintains and no
  operation of the repository reads, are left out.
\<close>

definition serviceEnum :: "string list" where
  "serviceEnum = [''residential'', ''commercial'', ''industrial'', ''renovation'',
     ''interior-design'', ''project-management'', ''sustainability'']"

definition statusEnum :: "string list" where
  "statusEnum = [''pending'', ''confirmed'', ''completed'', ''cancelled'']"

datatype error =
    Error string
  | TypeError string
  | ValidationError
  | CastError
  | ErrorResponse string nat

text \<open>
  \<open>Error msg\<close> is \<^verbatim>\<open>new Error(msg)\<close>, \<open>TypeError\<close> the exception the JavaScript runtime
  raises when a value that is not a function is called, \<open>ValidationError\<close> the rejection of
  a write by the schema's validators, \<open>CastError\<close> the rejection of a query or an update
  whose value cannot be cast to the type of its path, and \<open>ErrorResponse msg code\<close> the
  value the controllers hand to \<^verbatim>\<open>next\<close>.
\<close>

subsection \<open>Schema validation\<close>

text \<open>
  The validators of the schema: \<^verbatim>\<open>required\<close> on a string path rejects the empty string,
  \<^verbatim>\<open>enum\<close> rejects a value outside the list, \<^verbatim>\<open>minlength\<close> and \<^verbatim>\<open>maxlength\<close> bound the length.
  \<^verbatim>\<open>changedBy\<close> is a required path of type \<^verbatim>\<open>ObjectId\<close>: an entry without a cast value is
  rejected. \<^verbatim>\<open>user\<close> is one as well. \<^verbatim>\<open>preferredDate\<close> is required; the record type always
  carries it.
\<close>

definition validateEntry :: "statusHistoryEntry \<Rightarrow> bool" where
  "validateEntry e \<longleftrightarrow> entry_status e \<in> set statusEnum \<and> changedBy e \<noteq> None"

definition validateDescription :: "string \<Rightarrow> bool" where
  "validateDescription d \<longleftrightarrow> d \<noteq> [] \<and> 50 \<le> length d \<and> length d \<le> 1000"

definition validateDoc :: "consultation \<Rightarrow> bool" where
  "validateDoc c \<longleftrightarrow>
     isObjectId (user c) \<and>
     service c \<in> set serviceEnum \<and>
     projectType c \<noteq> [] \<and>
     validateDescription (description c) \<and>
     location c \<noteq> [] \<and>
     status c \<in> set statusEnum \<and>
     list_all validateEntry (statusHistory c)"

subsection \<open>The collection\<close>

text \<open>
  The collection is the list of stored documents. \<^verbatim>\<open>findById(id)\<close> casts the id it is
  given and throws a CastError when that fails.

  \<open>save\<close> is the mapper's \<^verbatim>\<open>document.save()\<close> for a document that was loaded from the
  collection. It runs the schema's validators on the document in memory and then sends the
  database only what was modified since the document was loaded: a \<^verbatim>\<open>$set\<close> for a path
  that was assigned and a \<^verbatim>\<open>$push\<close> for an entry pushed on an array. The write is applied
  to the stored document of the same id; a pushed entry makes the mapper increment the
  version key but not test it. \<open>save\<close> takes these modifications as its third argument.
  A failure of the database connection itself is outside the model.
\<close>

type_synonym collection = "consultation list"

definition findById :: "collection \<Rightarrow> string \<Rightarrow> error + consultation option" where
  "findById col i =
     (case castObjectId i of
        None \<Rightarrow> Inl CastError
      | Some j \<Rightarrow> Inr (find (\<lambda>c. cid c = j) col))"

datatype change =
    SetStatus string
  | PushStatusHistory statusHistoryEntry
  | SetIsUrgent bool

fun applyChange :: "change \<Rightarrow> consultation \<Rightarrow> consultation" where
  "applyChange (SetStatus s) d = d\<lparr>status := s\<rparr>"
| "applyChange (PushStatusHistory e) d = d\<lparr>statusHistory := statusHistory d @ [e]\<rparr>"
| "applyChange (SetIsUrgent b) d = d\<lparr>isUrgent := b\<rparr>"

definition writeChanges :: "collection \<Rightarrow> objectId \<Rightarrow> change list \<Rightarrow> collection" where
  "writeChanges col i changes =
     map (\<lambda>d. if cid d = i then fold applyChange changes d else d) col"

definition save :: "collection \<Rightarrow> consultation \<Rightarrow> change list \<Rightarrow> error + collection" where
  "save col this changes =
     (if validateDoc this then Inr (writeChanges col (cid this) changes)
      else Inl ValidationError)"

text \<open>
  The whole-document replacement that \<^verbatim>\<open>findByIdAndUpdate\<close> amounts to for the stored
  document of an id.
\<close>

definition replaceDoc :: "collection \<Rightarrow> consultation \<Rightarrow> collection" where
  "replaceDoc col c = map (\<lambda>d. if cid d = cid c then c else d) col"

section \<open>The status transition table\<close>

text \<open>
  \<^verbatim>\<open>validTransitions\<close> is an object literal, so \<^verbatim>\<open>validTransitions[this.status]\<close> finds the
  four own properties first and then the properties every object literal inherits from
  \<^verbatim>\<open>Object.prototype\<close>; for any other key it is \<^verbatim>\<open>undefined\<close>.
\<close>

definition validTransitions :: "(string \<times> string list) list" where
  "validTransitions =
     [(''pending'', [''confirmed'', ''cancelled'']),
      (''confirmed'', [''completed'', ''cancelled'']),
      (''completed'', [''cancelled'']),
      (''cancelled'', [])]"

definition objectPrototypeKeys :: "string list" where
  "objectPrototypeKeys =
     [''constructor'', ''hasOwnProperty'', ''isPrototypeOf'', ''propertyIsEnumerable'',
      ''toLocaleString'', ''toString'', ''valueOf'', ''__proto__'',
      ''__defineGetter__'', ''__defineSetter__'', ''__lookupGetter__'', ''__lookupSetter__'']"

datatype property = Undefined | ArrayValue "string list" | Inherited

definition getProperty :: "(string \<times> string list) list \<Rightarrow> string \<Rightarrow> property" where
  "getProperty obj k =
     (case map_of obj k of
        Some v \<Rightarrow> ArrayValue v
      | None \<Rightarrow> if k \<in> set objectPrototypeKeys then Inherited else Undefined)"

text \<open>
  \<^verbatim>\<open>return validTransitions[this.status]?.includes(newStatus) || false\<close>.
  The optional chain stops only at \<^verbatim>\<open>undefined\<close> (giving \<^verbatim>\<open>undefined || false\<close>); on an
  array it calls \<^verbatim>\<open>includes\<close>; on an inherited property, which is an object or a function
  without an \<^verbatim>\<open>includes\<close> method, the call raises a TypeError.
\<close>

definition canChangeStatus :: "consultation \<Rightarrow> string \<Rightarrow> error + bool" where
  "canChangeStatus this newStatus =
     (case getProperty validTransitions (status this) of
        Undefined \<Rightarrow> Inr False
      | ArrayValue allowed \<Rightarrow> Inr (newStatus \<in> set allowed)
      | Inherited \<Rightarrow>
          Inl (TypeError ''validTransitions[this.status]?.includes is not a function''))"

section \<open>updateStatus\<close>

text \<open>
  The method mutates the document in memory and then saves it. The model returns the
  outcome of the call (the thrown error, or the pair \<^verbatim>\<open>{ oldStatus, newStatus }\<close>), the
  document as it is in memory after the call, and the collection after the call.
  \<open>now\<close> is the value of \<^verbatim>\<open>new Date()\<close>. The pushed object is cast to an entry of the
  schema, and with it the string given for \<^verbatim>\<open>changedBy\<close>.
\<close>

definition updateStatus ::
  "date \<Rightarrow> collection \<Rightarrow> consultation \<Rightarrow> string \<Rightarrow> string \<Rightarrow> string
     \<Rightarrow> (error + string \<times> string) \<times> consultation \<times> collection" where
  "updateStatus now col this newStatus userId rsn =
     (case canChangeStatus this newStatus of
        Inl e \<Rightarrow> (Inl e, this, col)
      | Inr False \<Rightarrow>
          (Inl (Error (''Invalid status transition from '' @ status this @ '' to '' @ newStatus)),
           this, col)
      | Inr True \<Rightarrow>
          (let oldStatus = status this;
               this1 = this\<lparr>status := newStatus\<rparr>;
               entry = \<lparr>entry_status = newStatus, changedBy = castObjectId userId,
                        reason = rsn, changedAt = now\<rparr>;
               this2 = this1\<lparr>statusHistory := statusHistory this1 @ [entry]\<rparr>
           in case save col this2 [SetStatus newStatus, PushStatusHistory entry] of
                Inl e \<Rightarrow> (Inl e, this2, col)
              | Inr col' \<Rightarrow> (Inr (oldStatus, newStatus), this2, col')))"

text \<open>The transition table as the specification writes it: the set of legal pairs.\<close>

definition transitionTable :: "(string \<times> string) list" where
  "transitionTable =
     [(''pending'', ''confirmed''), (''pending'', ''cancelled''),
      (''confirmed'', ''completed''), (''confirmed'', ''cancelled''),
      (''completed'', ''cancelled'')]"

section \<open>Requests\<close>

text \<open>
  \<open>reqUser\<close> is \<^verbatim>\<open>req.user\<close>, set by the authentication middleware; its name, email
  and phone only feed the e-mail templates. The controllers hand \<^verbatim>\<open>req.body\<close> to the mapper
  as it came. \<open>consultationBody\<close> is the part of the possible bodies that the model covers:
  an object whose keys are top-level paths of the schema, each \<open>None\<close> when the body does
  not carry it, with the entries of a \<^verbatim>\<open>statusHistory\<close> already cast. The mapper also
  applies update operators (\<^verbatim>\<open>$set\<close>, \<^verbatim>\<open>$push\<close>, \<^verbatim>\<open>$pop\<close> and the like) and dotted keys
  of a body; such bodies are not values of this type, and nothing below is stated about
  them.
\<close>

record reqUser =
  user_id :: objectId
  role :: string

record consultationBody =
  b_user :: "string option"
  b_service :: "string option"
  b_projectType :: "string option"
  b_description :: "string option"
  b_location :: "string option"
  b_preferredDate :: "date option"
  b_status :: "string option"
  b_statusHistory :: "statusHistoryEntry list option"
  b_isUrgent :: "bool option"

text \<open>
  \<^verbatim>\<open>String.prototype.trim\<close>, which \<^verbatim>\<open>trim: true\<close> applies to \<^verbatim>\<open>projectType\<close> and
  \<^verbatim>\<open>location\<close>, over code units below 256: tab, line feed, vertical tab, form feed,
  carriage return, space and no-break space.
\<close>

definition isWhitespace :: "char \<Rightarrow> bool" where
  "isWhitespace ch \<longleftrightarrow>
     ch \<in> set [CHR 0x09, CHR 0x0A, CHR 0x0B, CHR 0x0C, CHR 0x0D, CHR 0x20, CHR 0xA0]"

definition trim :: "string \<Rightarrow> string" where
  "trim s = rev (dropWhile isWhitespace (rev (dropWhile isWhitespace s)))"

definition setPath :: "'a option \<Rightarrow> 'a \<Rightarrow> 'a" where
  "setPath v old = (case v of None \<Rightarrow> old | Some x \<Rightarrow> x)"

text \<open>
  \<^verbatim>\<open>findByIdAndUpdate(id, req.body, { new: true, runValidators: true })\<close>: the id and the
  values of the body are cast (a \<^verbatim>\<open>user\<close> that is not an object id is a CastError), every
  path the body carries is checked by that path's validators and then written over the
  stored value; the updated document is returned (\<^verbatim>\<open>null\<close> when no document has the id).
\<close>

definition castUpdate :: "consultationBody \<Rightarrow> bool" where
  "castUpdate b \<longleftrightarrow> (case b_user b of None \<Rightarrow> True | Some v \<Rightarrow> castObjectId v \<noteq> None)"

definition validateUpdate :: "consultationBody \<Rightarrow> bool" where
  "validateUpdate b \<longleftrightarrow>
     (case b_service b of None \<Rightarrow> True | Some s \<Rightarrow> s \<in> set serviceEnum) \<and>
     (case b_projectType b of None \<Rightarrow> True | Some p \<Rightarrow> trim p \<noteq> []) \<and>
     (case b_description b of None \<Rightarrow> True | Some d \<Rightarrow> validateDescription d) \<and>
     (case b_location b of None \<Rightarrow> True | Some l \<Rightarrow> trim l \<noteq> []) \<and>
     (case b_status b of None \<Rightarrow> True | Some s \<Rightarrow> s \<in> set statusEnum) \<and>
     (case b_statusHistory b of None \<Rightarrow> True | Some h \<Rightarrow> list_all validateEntry h)"

definition applyUpdate :: "consultationBody \<Rightarrow> consultation \<Rightarrow> consultation" where
  "applyUpdate b c =
     c\<lparr>user := setPath (Option.bind (b_user b) castObjectId) (user c),
       service := setPath (b_service b) (service c),
       projectType := setPath (map_option trim (b_projectType b)) (projectType c),
       description := setPath (b_description b) (description c),
       location := setPath (map_option trim (b_location b)) (location c),
       preferredDate := setPath (b_preferredDate b) (preferredDate c),
       status := setPath (b_status b) (status c),
       statusHistory := setPath (b_statusHistory b) (statusHistory c),
       isUrgent := setPath (b_isUrgent b) (isUrgent c)\<rparr>"

definition findByIdAndUpdate ::
  "collection \<Rightarrow> string \<Rightarrow> consultationBody \<Rightarrow> (error + consultation option) \<times> collection" where
  "findByIdAndUpdate col i b =
     (case castObjectId i of
        None \<Rightarrow> (Inl CastError, col)
      | Some j \<Rightarrow>
          if \<not> castUpdate b then (Inl CastError, col)
          else if \<not> validateUpdate b then (Inl ValidationError, col)
          else (case find (\<lambda>c. cid c = j) col of
                  None \<Rightarrow> (Inr None, col)
                | Some c \<Rightarrow>
                    (Inr (Some (applyUpdate b c)), replaceDoc col (applyUpdate b c))))"

definition findByIdAndDelete :: "collection \<Rightarrow> string \<Rightarrow> error + collection" where
  "findByIdAndDelete col i =
     (case castObjectId i of
        None \<Rightarrow> Inl CastError
      | Some j \<Rightarrow>
          (case find (\<lambda>c. cid c = j) col of
             None \<Rightarrow> Inr col
           | Some c \<Rightarrow> Inr (remove1 c col)))"

text \<open>
  \<^verbatim>\<open>Consultation.create(data)\<close>: the schema's defaults fill the paths the data lacks
  (\<^verbatim>\<open>status\<close> \<^verbatim>\<open>"pending"\<close>, \<^verbatim>\<open>statusHistory\<close> empty, \<^verbatim>\<open>isUrgent\<close> false, and \<^verbatim>\<open>createdAt\<close>
  the time of the call), a missing required path, a value that cannot be cast or a failing
  validator rejects the document, and the document is stored under a fresh id \<open>newId\<close>.
  The data of a creation may carry \<^verbatim>\<open>createdAt\<close> beside the paths of \<open>consultationBody\<close>.
\<close>

record consultationData = consultationBody +
  b_createdAt :: "date option"

definition create ::
  "date \<Rightarrow> objectId \<Rightarrow> collection \<Rightarrow> consultationData \<Rightarrow> error + consultation \<times> collection" where
  "create now newId col d =
     (if b_user d = None \<or> b_service d = None \<or> b_projectType d = None \<or>
         b_description d = None \<or> b_location d = None \<or> b_preferredDate d = None
      then Inl ValidationError
      else
        (case castObjectId (the (b_user d)) of
           None \<Rightarrow> Inl ValidationError
         | Some owner \<Rightarrow>
             (let doc = \<lparr>cid = newId, user = owner, service = the (b_service d),
                         projectType = trim (the (b_projectType d)),
                         description = the (b_description d),
                         location = trim (the (b_location d)),
                         preferredDate = the (b_preferredDate d),
                         status = setPath (b_status d) ''pending'',
                         statusHistory = setPath (b_statusHistory d) [],
                         isUrgent = setPath (b_isUrgent d) False,
                         createdAt = setPath (b_createdAt d) now\<rparr>
              in if validateDoc doc then Inr (doc, col @ [doc]) else Inl ValidationError)))"

section \<open>The controllers (controllers/consultationController.js)\<close>

text \<open>
  A controller that writes returns its response (\<open>Inl\<close> the error handed to \<^verbatim>\<open>next\<close> or
  caught by \<^verbatim>\<open>asyncHandler\<close>, \<open>Inr\<close> the \<^verbatim>\<open>data\<close> of the JSON answer) and the collection
  after the request. \<open>mail\<close> is the outcome of \<^verbatim>\<open>sendEmail\<close>, an external collaborator:
  \<open>None\<close> when the message was sent, \<open>Some e\<close> when it threw \<open>e\<close>.
\<close>

definition message :: "error \<Rightarrow> string" where
  "message e =
     (case e of
        Error m \<Rightarrow> m
      | TypeError m \<Rightarrow> m
      | ValidationError \<Rightarrow> ''Consultation validation failed''
      | CastError \<Rightarrow> ''Cast to ObjectId failed''
      | ErrorResponse m code \<Rightarrow> m)"

text \<open>
  \<^verbatim>\<open>createConsultation\<close>: the spread of \<^verbatim>\<open>req.body\<close> is overridden by
  \<^verbatim>\<open>user: req.user.id\<close>; the keys \<^verbatim>\<open>name\<close>, \<^verbatim>\<open>email\<close> and \<^verbatim>\<open>phone\<close> it adds are not paths
  of the schema. The e-mails are sent inside a \<^verbatim>\<open>try\<close> whose \<^verbatim>\<open>catch\<close> only logs.
\<close>

definition createConsultation ::
  "date \<Rightarrow> objectId \<Rightarrow> collection \<Rightarrow> reqUser \<Rightarrow> consultationData
     \<Rightarrow> (error + consultation) \<times> collection" where
  "createConsultation now newId col u body =
     (let consultationData = body\<lparr>b_user := Some (user_id u)\<rparr>
      in case create now newId col consultationData of
           Inl e \<Rightarrow> (Inl e, col)
         | Inr (doc, col') \<Rightarrow> (Inr doc, col'))"

definition updateConsultation ::
  "collection \<Rightarrow> string \<Rightarrow> reqUser \<Rightarrow> consultationBody
     \<Rightarrow> (error + consultation option) \<times> collection" where
  "updateConsultation col pid u body =
     (case findById col pid of
        Inl e \<Rightarrow> (Inl e, col)
      | Inr None \<Rightarrow> (Inl (ErrorResponse ''Consultation not found'' 404), col)
      | Inr (Some c) \<Rightarrow>
          if user c \<noteq> user_id u \<and> role u \<noteq> ''admin''
          then (Inl (ErrorResponse ''Not authorized to update this consultation'' 401), col)
          else if user c = user_id u \<and> status c \<noteq> ''pending''
          then (Inl (ErrorResponse
                       ''Cannot update consultation after it has been processed'' 400), col)
          else findByIdAndUpdate col pid body)"

definition deleteConsultation ::
  "collection \<Rightarrow> string \<Rightarrow> reqUser \<Rightarrow> (error + unit) \<times> collection" where
  "deleteConsultation col pid u =
     (case findById col pid of
        Inl e \<Rightarrow> (Inl e, col)
      | Inr None \<Rightarrow> (Inl (ErrorResponse ''Consultation not found'' 404), col)
      | Inr (Some c) \<Rightarrow>
          if user c \<noteq> user_id u \<and> role u \<noteq> ''admin''
          then (Inl (ErrorResponse ''Not authorized to delete this consultation'' 401), col)
          else if user c = user_id u \<and> status c \<noteq> ''pending''
          then (Inl (ErrorResponse
                       ''Cannot delete consultation after it has been processed'' 400), col)
          else (case findByIdAndDelete col pid of
                  Inl e \<Rightarrow> (Inl e, col)
                | Inr col' \<Rightarrow> (Inr (), col')))"

text \<open>
  \<^verbatim>\<open>updateConsultationStatus\<close>: the call of \<^verbatim>\<open>updateStatus\<close> and the e-mail are in one
  \<^verbatim>\<open>try\<close>; whatever is thrown there becomes \<^verbatim>\<open>new ErrorResponse(error.message, 400)\<close>.
  The lookup is before the \<^verbatim>\<open>try\<close>.
\<close>

definition updateConsultationStatus ::
  "date \<Rightarrow> error option \<Rightarrow> collection \<Rightarrow> string \<Rightarrow> reqUser \<Rightarrow> string \<Rightarrow> string
     \<Rightarrow> (error + consultation \<times> string \<times> string) \<times> collection" where
  "updateConsultationStatus now mail col pid u newStatus rsn =
     (case findById col pid of
        Inl e \<Rightarrow> (Inl e, col)
      | Inr None \<Rightarrow> (Inl (ErrorResponse ''Consultation not found'' 404), col)
      | Inr (Some c) \<Rightarrow>
          (case updateStatus now col c newStatus (user_id u) rsn of
             (Inl e, c', col') \<Rightarrow> (Inl (ErrorResponse (message e) 400), col')
           | (Inr (oldStatus, newStatus'), c', col') \<Rightarrow>
               (case mail of
                  Some e \<Rightarrow> (Inl (ErrorResponse (message e) 400), col')
                | None \<Rightarrow> (Inr (c', oldStatus, newStatus'), col'))))"

definition markAsUrgent ::
  "collection \<Rightarrow> string \<Rightarrow> (error + consultation) \<times> collection" where
  "markAsUrgent col pid =
     (case findById col pid of
        Inl e \<Rightarrow> (Inl e, col)
      | Inr None \<Rightarrow> (Inl (ErrorResponse ''Consultation not found'' 404), col)
      | Inr (Some c) \<Rightarrow>
          (let c' = c\<lparr>isUrgent := True\<rparr>
           in case save col c' [SetIsUrgent True] of
                Inl e \<Rightarrow> (Inl e, col)
              | Inr col' \<Rightarrow> (Inr c', col')))"

text \<open>
  \<^verbatim>\<open>markAsResolved\<close>: \<^verbatim>\<open>followUpDate\<close> is not a path of the schema, so the assignment is
  not stored. The e-mail is sent after the save and outside any \<^verbatim>\<open>try\<close>.
\<close>

definition markAsResolved ::
  "error option \<Rightarrow> collection \<Rightarrow> string \<Rightarrow> (error + consultation) \<times> collection" where
  "markAsResolved mail col pid =
     (case findById col pid of
        Inl e \<Rightarrow> (Inl e, col)
      | Inr None \<Rightarrow> (Inl (ErrorResponse ''Consultation not found'' 404), col)
      | Inr (Some c) \<Rightarrow>
          (let c' = c\<lparr>status := ''completed''\<rparr>
           in case save col c' [SetStatus ''completed''] of
                Inl e \<Rightarrow> (Inl e, col)
              | Inr col' \<Rightarrow>
                  (case mail of
                     Some e \<Rightarrow> (Inl e, col')
                   | None \<Rightarrow> (Inr c', col'))))"

section \<open>Two status updates on one consultation\<close>

text \<open>
  A request for a status update reads the consultation with \<^verbatim>\<open>findById\<close>, and the
  \<^verbatim>\<open>updateStatus\<close> it then calls runs without interruption up to its \<^verbatim>\<open>save\<close>. Nothing in
  the code orders two such requests on one id, so the reads and the saves of two requests
  can reach the database in any order that puts each request's read before its save.
  \<open>callsInTurn\<close> is the order in which the first request has saved before the second
  reads; \<open>callsOverlapping\<close> is the order in which both requests have read before either
  saves, the first request saving first. Each gives the outcomes of the two calls of
  \<open>updateStatus\<close> and the collection after both, or \<open>None\<close> when a read finds no document.
\<close>

record statusRequest =
  r_status :: string
  r_actor :: string
  r_reason :: string
  r_now :: date






section \<open>Queries\<close>

text \<open>
  A query object holds the paths it constrains. \<^verbatim>\<open>find(q).sort("-createdAt")\<close> keeps the
  documents that match every path of \<open>q\<close> and orders them by descending creation date.
  \<^verbatim>\<open>select\<close> and \<^verbatim>\<open>populate\<close> shape the fields of the answer and change neither which
  documents are returned nor their order. Among documents with the same creation date the
  database promises no order; \<open>sortNewestFirst\<close> fixes one.
\<close>

record query =
  q_isUrgent :: "bool option"
  q_status :: "string option"

definition matches :: "query \<Rightarrow> consultation \<Rightarrow> bool" where
  "matches q c \<longleftrightarrow>
     (case q_isUrgent q of None \<Rightarrow> True | Some b \<Rightarrow> isUrgent c = b) \<and>
     (case q_status q of None \<Rightarrow> True | Some s \<Rightarrow> status c = s)"

definition sortNewestFirst :: "collection \<Rightarrow> collection" where
  "sortNewestFirst col = rev (sort_key createdAt col)"

definition findSorted :: "query \<Rightarrow> collection \<Rightarrow> collection" where
  "findSorted q col = sortNewestFirst (filter (matches q) col)"

text \<open>
  The static method of the model:
  \<^verbatim>\<open>this.find({ isUrgent: true, status: "pending" }).sort("-createdAt")\<close>.
\<close>

definition Consultation_getUrgentConsultations :: "collection \<Rightarrow> collection" where
  "Consultation_getUrgentConsultations col =
     findSorted \<lparr>q_isUrgent = Some True, q_status = Some ''pending''\<rparr> col"

text \<open>
  The controller does not call the static method; its query is
  \<^verbatim>\<open>{ isUrgent: true } || { status: "urgent" }\<close>. An object is truthy, so \<^verbatim>\<open>||\<close> yields its
  left operand.
\<close>

definition jsOr :: "query \<Rightarrow> query \<Rightarrow> query" where
  "jsOr a b = a"

definition getUrgentConsultations :: "collection \<Rightarrow> collection" where
  "getUrgentConsultations col =
     findSorted (jsOr \<lparr>q_isUrgent = Some True, q_status = None\<rparr>
                      \<lparr>q_isUrgent = None, q_status = Some ''urgent''\<rparr>) col"

text \<open>
  \<^verbatim>\<open>getConsultationStats\<close>: one \<^verbatim>\<open>$group\<close> stage over the whole collection (it yields no
  group when the collection is empty), then the five newest documents.
\<close>

record consultationStats =
  total :: nat
  pending :: nat
  completed :: nat
  cancelled :: nat
  urgent :: nat

definition cond :: "bool \<Rightarrow> nat \<Rightarrow> nat \<Rightarrow> nat" where
  "cond b x y = (if b then x else y)"

definition aggregateGroup :: "collection \<Rightarrow> consultationStats list" where
  "aggregateGroup col =
     (if col = [] then []
      else [\<lparr>total = sum_list (map (\<lambda>c. 1) col),
             pending = sum_list (map (\<lambda>c. cond (status c = ''pending'') 1 0) col),
             completed = sum_list (map (\<lambda>c. cond (status c = ''completed'') 1 0) col),
             cancelled = sum_list (map (\<lambda>c. cond (status c = ''cancelled'') 1 0) col),
             urgent = sum_list (map (\<lambda>c. cond (isUrgent c) 1 0) col)\<rparr>])"

definition getConsultationStats :: "collection \<Rightarrow> consultationStats \<times> collection" where
  "getConsultationStats col =
     (let stats = aggregateGroup col;
          recent = take 5 (sortNewestFirst col);
          result = (if length stats > 0 then hd stats
                    else \<lparr>total = 0, pending = 0, completed = 0, cancelled = 0, urgent = 0\<rparr>)
      in (result, recent))"

section \<open>Example data\<close>

definition exampleConsultation :: consultation where
  "exampleConsultation =
     \<lparr>cid = ''64b7f0c2a1d3e4f5a6b7c8d9'', user = ''64b7f0c2a1d3e4f5a6b7c8aa'',
      service = ''residential'', projectType = ''New house'',
      description = ''A two-storey family house with a garden, a garage and a solar roof.'',
      location = ''Cairo'', preferredDate = 1700000000000,
      status = ''pending'', statusHistory = [], isUrgent = False,
      createdAt = 1690000000000\<rparr>"

definition confirmedConsultation :: consultation where
  "confirmedConsultation =
     \<lparr>cid = ''64b7f0c2a1d3e4f5a6b7c8e0'', user = ''64b7f0c2a1d3e4f5a6b7c8aa'',
      service = ''renovation'', projectType = ''Kitchen'',
      description = ''Renovation of a kitchen and two bathrooms in an old flat downtown.'',
      location = ''Giza'', preferredDate = 1700000500000,
      status = ''confirmed'',
      statusHistory = [\<lparr>entry_status = ''confirmed'',
                         changedBy = Some ''64b7f0c2a1d3e4f5a6b7c8ff'',
                         reason = ''approved'', changedAt = 1695000000000\<rparr>],
      isUrgent = True, createdAt = 1691000000000\<rparr>"

definition ownerUser :: reqUser where
  "ownerUser = \<lparr>user_id = ''64b7f0c2a1d3e4f5a6b7c8aa'', role = ''user''\<rparr>"

definition adminUser :: reqUser where
  "adminUser = \<lparr>user_id = ''64b7f0c2a1d3e4f5a6b7c8ff'', role = ''admin''\<rparr>"

definition adminOwner :: reqUser where
  "adminOwner = \<lparr>user_id = ''64b7f0c2a1d3e4f5a6b7c8aa'', role = ''admin''\<rparr>"

definition emptyBody :: consultationBody where
  "emptyBody =
     \<lparr>b_user = None, b_service = None, b_projectType = None, b_description = None,
      b_location = None, b_preferredDate = None, b_status = None, b_statusHistory = None,
      b_isUrgent = None\<rparr>"

definition descriptionBody :: consultationBody where
  "descriptionBody =
     emptyBody\<lparr>b_description :=
       Some ''A two-storey family house with a garden, a garage and a large terrace.''\<rparr>"

definition confirmRequest :: statusRequest where
  "confirmRequest =
     \<lparr>r_status = ''confirmed'', r_actor = ''64b7f0c2a1d3e4f5a6b7c8ff'',
      r_reason = ''approved'', r_now = 1695000000000\<rparr>"

definition cancelRequest :: statusRequest where
  "cancelRequest =
     \<lparr>r_status = ''cancelled'', r_actor = ''64b7f0c2a1d3e4f5a6b7c8fe'',
      r_reason = ''withdrawn'', r_now = 1695000000001\<rparr>"

section \<open>Properties of a request, stated over the collection\<close>

text \<open>
  \<open>historyAppendOnly col col'\<close>: the two collections hold the same documents in the
  same order, and the status history of each document of \<open>col\<close> is an initial segment of
  the history of its successor in \<open>col'\<close>. \<open>owners\<close> lists each document's id with its
  owner.
\<close>

definition historyAppendOnly :: "collection \<Rightarrow> collection \<Rightarrow> bool" where
  "historyAppendOnly col col' \<longleftrightarrow>
     list_all2 (\<lambda>c c'. cid c' = cid c \<and> prefix (statusHistory c) (statusHistory c')) col col'"

definition owners :: "collection \<Rightarrow> (objectId \<times> objectId) list" where
  "owners col = map (\<lambda>c. (cid c, user c)) col"

definition urgentPending :: "consultation \<Rightarrow> bool" where
  "urgentPending c \<longleftrightarrow> isUrgent c \<and> status c = ''pending''"

section \<open>Properties of the transition table\<close>

lemma getProperty_enum:
  "s \<in> set statusEnum \<Longrightarrow> \<exists>allowed. getProperty validTransitions s = ArrayValue allowed"
  by (auto simp: statusEnum_def getProperty_def validTransitions_def)

lemma canChangeStatus_table:
  "status c \<in> set statusEnum \<Longrightarrow>
     canChangeStatus c t = Inr ((status c, t) \<in> set transitionTable)"
  by (auto simp: statusEnum_def canChangeStatus_def getProperty_def validTransitions_def
      transitionTable_def)

lemma transitionTable_enum:
  "(s, t) \<in> set transitionTable \<Longrightarrow> s \<in> set statusEnum \<and> t \<in> set statusEnum"
  by (auto simp: transitionTable_def statusEnum_def)

lemma canChangeStatus_unknown:
  "s \<notin> set statusEnum \<Longrightarrow> s \<notin> set objectPrototypeKeys \<Longrightarrow>
     canChangeStatus (c\<lparr>status := s\<rparr>) t = Inr False"
  by (auto simp: statusEnum_def canChangeStatus_def getProperty_def validTransitions_def)

section \<open>Properties of updateStatus\<close>

lemma validateDoc_updated:
  "validateDoc c \<Longrightarrow> t \<in> set statusEnum \<Longrightarrow>
     validateDoc (c\<lparr>status := t, statusHistory := statusHistory c @
        [\<lparr>entry_status = t, changedBy = Some a, reason = r, changedAt = n\<rparr>]\<rparr>)"
  by (simp add: validateDoc_def validateEntry_def)

lemma updateStatus_cases:
  "updateStatus now col c t a r = (res, c', col') \<Longrightarrow>
     (c' = c \<and> col' = col) \<or>
     (c' = c\<lparr>status := t, statusHistory := statusHistory c @
         [\<lparr>entry_status = t, changedBy = castObjectId a, reason = r, changedAt = now\<rparr>]\<rparr> \<and>
      (col' = col \<or>
       col' = writeChanges col (cid c)
                [SetStatus t,
                 PushStatusHistory
                   \<lparr>entry_status = t, changedBy = castObjectId a, reason = r,
                    changedAt = now\<rparr>]))"
  by (auto simp: updateStatus_def save_def Let_def split: sum.splits bool.splits if_splits)

lemma updateStatus_history_prefix:
  "prefix (statusHistory c) (statusHistory (fst (snd (updateStatus now col c t a r))))"
proof -
  obtain res c' col' where upd: "updateStatus now col c t a r = (res, c', col')"
    by (cases "updateStatus now col c t a r") auto
  show ?thesis
    using updateStatus_cases [OF upd] by (auto simp: upd)
qed

lemma updateStatus_user:
  "user (fst (snd (updateStatus now col c t a r))) = user c"
proof -
  obtain res c' col' where upd: "updateStatus now col c t a r = (res, c', col')"
    by (cases "updateStatus now col c t a r") auto
  show ?thesis
    using updateStatus_cases [OF upd] by (auto simp: upd)
qed

section \<open>Properties of the collection\<close>

lemma applyChange_frame:
  "cid (applyChange ch d) = cid d \<and> user (applyChange ch d) = user d \<and>
   prefix (statusHistory d) (statusHistory (applyChange ch d))"
  by (cases ch) simp_all

lemma fold_applyChange_frame:
  "cid (fold applyChange chs d) = cid d \<and> user (fold applyChange chs d) = user d \<and>
   prefix (statusHistory d) (statusHistory (fold applyChange chs d))"
proof (induction chs arbitrary: d)
  case Nil
  then show ?case by simp
next
  case (Cons ch chs)
  have "prefix (statusHistory d) (statusHistory (applyChange ch d))"
    using applyChange_frame by blast
  moreover have "prefix (statusHistory (applyChange ch d))
      (statusHistory (fold applyChange chs (applyChange ch d)))"
    using Cons.IH by blast
  ultimately have "prefix (statusHistory d)
      (statusHistory (fold applyChange chs (applyChange ch d)))"
    by (rule prefix_order.trans)
  then show ?case
    using Cons.IH [of "applyChange ch d"] applyChange_frame [of ch d] by simp
qed

lemma historyAppendOnly_refl: "historyAppendOnly col col"
  by (simp add: historyAppendOnly_def list_all2_same)

lemma historyAppendOnly_writeChanges: "historyAppendOnly col (writeChanges col i chs)"
  by (simp add: historyAppendOnly_def writeChanges_def list_all2_map2 list_all2_same
      fold_applyChange_frame)

lemma owners_writeChanges: "owners (writeChanges col i chs) = owners col"
  by (simp add: owners_def writeChanges_def fold_applyChange_frame)



lemma find_cid_unique:
  "distinct (map cid col) \<Longrightarrow> c \<in> set col \<Longrightarrow> find (\<lambda>d. cid d = cid c) col = Some c"
  by (induction col) (auto simp: image_iff)



section \<open>What each controller does to histories and owners\<close>

lemma snd_updateConsultationStatus:
  "snd (updateConsultationStatus now mail col pid u t r) =
     (case findById col pid of
        Inr (Some c) \<Rightarrow> snd (snd (updateStatus now col c t (user_id u) r))
      | _ \<Rightarrow> col)"
  by (auto simp: updateConsultationStatus_def split: option.splits prod.splits sum.splits)

lemma updateStatus_collection:
  "snd (snd (updateStatus now col c t a r)) = col \<or>
   (\<exists>chs. snd (snd (updateStatus now col c t a r)) = writeChanges col (cid c) chs)"
proof -
  obtain res c' col' where upd: "updateStatus now col c t a r = (res, c', col')"
    by (cases "updateStatus now col c t a r") auto
  show ?thesis
    using updateStatus_cases [OF upd] by (auto simp: upd)
qed

lemma updateStatus_collection_history:
  "historyAppendOnly col (snd (snd (updateStatus now col c t a r)))"
  using updateStatus_collection [of now col c t a r]
  by (auto simp: historyAppendOnly_refl historyAppendOnly_writeChanges)

lemma updateStatus_collection_owners:
  "owners (snd (snd (updateStatus now col c t a r))) = owners col"
  using updateStatus_collection [of now col c t a r]
  by (auto simp: owners_writeChanges)

lemma updateConsultationStatus_history:
  "historyAppendOnly col (snd (updateConsultationStatus now mail col pid u t r))"
  by (simp add: snd_updateConsultationStatus historyAppendOnly_refl
      updateStatus_collection_history split: sum.splits option.splits)

lemma updateConsultationStatus_owners:
  "owners (snd (updateConsultationStatus now mail col pid u t r)) = owners col"
  by (simp add: snd_updateConsultationStatus updateStatus_collection_owners
      split: sum.splits option.splits)

lemma markAsUrgent_collection:
  "snd (markAsUrgent col pid) = col \<or>
   (\<exists>i. snd (markAsUrgent col pid) = writeChanges col i [SetIsUrgent True])"
  by (auto simp: markAsUrgent_def save_def Let_def split: sum.splits option.splits)

lemma markAsResolved_collection:
  "snd (markAsResolved mail col pid) = col \<or>
   (\<exists>i. snd (markAsResolved mail col pid) = writeChanges col i [SetStatus ''completed''])"
  by (auto simp: markAsResolved_def save_def Let_def split: sum.splits option.splits)

lemma markAsUrgent_history: "historyAppendOnly col (snd (markAsUrgent col pid))"
  using markAsUrgent_collection [of col pid]
  by (auto simp: historyAppendOnly_refl historyAppendOnly_writeChanges)

lemma markAsUrgent_owners: "owners (snd (markAsUrgent col pid)) = owners col"
  using markAsUrgent_collection [of col pid] by (auto simp: owners_writeChanges)

lemma markAsResolved_history: "historyAppendOnly col (snd (markAsResolved mail col pid))"
  using markAsResolved_collection [of mail col pid]
  by (auto simp: historyAppendOnly_refl historyAppendOnly_writeChanges)

lemma markAsResolved_owners: "owners (snd (markAsResolved mail col pid)) = owners col"
  using markAsResolved_collection [of mail col pid] by (auto simp: owners_writeChanges)

lemma createConsultation_user:
  "createConsultation now newId col u body = (Inr doc, col') \<Longrightarrow>
     castObjectId (user_id u) = Some (user doc) \<and> col' = col @ [doc]"
  by (auto simp: createConsultation_def create_def Let_def
      split: if_splits sum.splits option.splits)

section \<open>The owner gate of update and delete\<close>

lemma owner_update_rejected_unless_pending:
  "findById col pid = Inr (Some c) \<Longrightarrow> user c = user_id u \<Longrightarrow> status c \<noteq> ''pending'' \<Longrightarrow>
     updateConsultation col pid u body =
       (Inl (ErrorResponse ''Cannot update consultation after it has been processed'' 400), col)"
  by (simp add: updateConsultation_def)

lemma owner_delete_rejected_unless_pending:
  "findById col pid = Inr (Some c) \<Longrightarrow> user c = user_id u \<Longrightarrow> status c \<noteq> ''pending'' \<Longrightarrow>
     deleteConsultation col pid u =
       (Inl (ErrorResponse ''Cannot delete consultation after it has been processed'' 400), col)"
  by (simp add: deleteConsultation_def)

lemma owner_update_pending_passes:
  "findById col pid = Inr (Some c) \<Longrightarrow> user c = user_id u \<Longrightarrow> status c = ''pending'' \<Longrightarrow>
     updateConsultation col pid u body = findByIdAndUpdate col pid body"
  by (simp add: updateConsultation_def)

lemma owner_delete_pending_passes:
  "findById col pid = Inr (Some c) \<Longrightarrow> user c = user_id u \<Longrightarrow> status c = ''pending'' \<Longrightarrow>
     deleteConsultation col pid u = (Inr (), remove1 c col)"
  by (auto simp: deleteConsultation_def findByIdAndDelete_def findById_def
      split: option.splits)

lemma admin_not_owner_passes:
  "findById col pid = Inr (Some c) \<Longrightarrow> user c \<noteq> user_id u \<Longrightarrow> role u = ''admin'' \<Longrightarrow>
     updateConsultation col pid u body = findByIdAndUpdate col pid body \<and>
     deleteConsultation col pid u = (Inr (), remove1 c col)"
  by (auto simp: updateConsultation_def deleteConsultation_def findByIdAndDelete_def
      findById_def split: option.splits)


section \<open>Properties of the queries\<close>

lemma set_sortNewestFirst: "set (sortNewestFirst col) = set col"
  by (simp add: sortNewestFirst_def)

lemma mset_sortNewestFirst: "mset (sortNewestFirst col) = mset col"
  by (simp add: sortNewestFirst_def)

lemma sortNewestFirst_descending: "sorted (rev (map createdAt (sortNewestFirst col)))"
  by (simp add: sortNewestFirst_def rev_map [symmetric])

lemma Consultation_getUrgentConsultations_exact:
  "mset (Consultation_getUrgentConsultations col) = mset (filter urgentPending col) \<and>
   sorted (rev (map createdAt (Consultation_getUrgentConsultations col)))"
proof -
  have "matches \<lparr>q_isUrgent = Some True, q_status = Some ''pending''\<rparr> = urgentPending"
    by (auto simp: matches_def urgentPending_def fun_eq_iff)
  then show ?thesis
    by (simp add: Consultation_getUrgentConsultations_def findSorted_def mset_sortNewestFirst
        sortNewestFirst_descending)
qed

lemma getUrgentConsultations_exact:
  "mset (getUrgentConsultations col) = mset (filter isUrgent col) \<and>
   sorted (rev (map createdAt (getUrgentConsultations col)))"
proof -
  have "matches \<lparr>q_isUrgent = Some True, q_status = None\<rparr> = isUrgent"
    by (auto simp: matches_def fun_eq_iff)
  then show ?thesis
    by (simp add: getUrgentConsultations_def jsOr_def findSorted_def mset_sortNewestFirst
        sortNewestFirst_descending)
qed

lemma sum_list_cond: "sum_list (map (\<lambda>c. cond (P c) 1 0) col) = length (filter P col)"
  by (induction col) (simp_all add: cond_def)

section \<open>The example data\<close>

lemmas example_defs = exampleConsultation_def confirmedConsultation_def ownerUser_def
  adminUser_def adminOwner_def emptyBody_def descriptionBody_def confirmRequest_def
  cancelRequest_def

lemma example_ids:
  "castObjectId ''64b7f0c2a1d3e4f5a6b7c8d9'' = Some ''64b7f0c2a1d3e4f5a6b7c8d9''"
  "castObjectId ''64b7f0c2a1d3e4f5a6b7c8e0'' = Some ''64b7f0c2a1d3e4f5a6b7c8e0''"
  "castObjectId ''64b7f0c2a1d3e4f5a6b7c8aa'' = Some ''64b7f0c2a1d3e4f5a6b7c8aa''"
  "castObjectId ''64b7f0c2a1d3e4f5a6b7c8ff'' = Some ''64b7f0c2a1d3e4f5a6b7c8ff''"
  "castObjectId ''64b7f0c2a1d3e4f5a6b7c8fe'' = Some ''64b7f0c2a1d3e4f5a6b7c8fe''"
  by (simp_all add: castObjectId_def isHexDigit_def lowerHex_def)

lemma example_valid:
  "validateDoc exampleConsultation" "validateDoc confirmedConsultation"
  by (simp_all add: validateDoc_def example_defs isObjectId_def example_ids serviceEnum_def
      statusEnum_def validateDescription_def validateEntry_def)

section \<open>Properties of a request for a status update\<close>






section \<open>Status updates\<close>

text \<open>
  C1. For every consultation that satisfies its schema, every pair (from, to) of the
  transition table and every acting user given by an object id, as \<^verbatim>\<open>req.user.id\<close> is,
  \<open>updateStatus\<close> called on a consultation whose status is \<open>from\<close> succeeds: it returns
  the pair (old status, new status), the status becomes \<open>to\<close>, the status history grows
  by exactly one entry, appended at the end, whose status is \<open>to\<close> and whose \<open>changedBy\<close>
  is the acting user, and the new status and the new entry are written to the stored
  document.
\<close>

theorem updateStatus_legal_transition:
  assumes "validateDoc c" and "(status c, t) \<in> set transitionTable" and "isObjectId actor"
  shows "case updateStatus now col c t actor rsn of
           (result, c', col') \<Rightarrow>
             result = Inr (status c, t) \<and>
             c' = c\<lparr>status := t, statusHistory := statusHistory c @
               [\<lparr>entry_status = t, changedBy = Some actor, reason = rsn,
                 changedAt = now\<rparr>]\<rparr> \<and>
             status c' = t \<and>
             length (statusHistory c') = length (statusHistory c) + 1 \<and>
             entry_status (last (statusHistory c')) = t \<and>
             changedBy (last (statusHistory c')) = Some actor \<and>
             col' = writeChanges col (cid c)
                      [SetStatus t,
                       PushStatusHistory
                         \<lparr>entry_status = t, changedBy = Some actor, reason = rsn,
                          changedAt = now\<rparr>]"
proof -
  from assms(2) have enum: "status c \<in> set statusEnum" "t \<in> set statusEnum"
    using transitionTable_enum by blast+
  have can: "canChangeStatus c t = Inr True"
    using canChangeStatus_table [OF enum(1)] assms(2) by simp
  have cast: "castObjectId actor = Some actor"
    using assms(3) by (simp add: isObjectId_def)
  have valid: "validateDoc (c\<lparr>status := t, statusHistory := statusHistory c @
        [\<lparr>entry_status = t, changedBy = Some actor, reason = rsn, changedAt = now\<rparr>]\<rparr>)"
    using validateDoc_updated [OF assms(1) enum(2)] .
  show ?thesis
    using valid by (simp add: updateStatus_def can cast save_def Let_def)
qed

theorem updateStatus_legal_transition_witness:
  "validateDoc exampleConsultation \<and>
   (status exampleConsultation, ''confirmed'') \<in> set transitionTable \<and>
   isObjectId ''64b7f0c2a1d3e4f5a6b7c8ff'' \<and>
   (case updateStatus 5 [exampleConsultation] exampleConsultation ''confirmed''
           ''64b7f0c2a1d3e4f5a6b7c8ff'' ''ok'' of
      (result, c', col') \<Rightarrow>
        result = Inr (''pending'', ''confirmed'') \<and>
        status c' = ''confirmed'' \<and>
        statusHistory c' = [\<lparr>entry_status = ''confirmed'',
                              changedBy = Some ''64b7f0c2a1d3e4f5a6b7c8ff'',
                              reason = ''ok'', changedAt = 5\<rparr>] \<and>
        col' = [c'])"
proof -
  have v: "validateDoc exampleConsultation"
    by (rule example_valid)
  have t: "(status exampleConsultation, ''confirmed'') \<in> set transitionTable"
    by (simp add: exampleConsultation_def transitionTable_def)
  have a: "isObjectId ''64b7f0c2a1d3e4f5a6b7c8ff''"
    by (simp add: isObjectId_def example_ids)
  have ex: "status exampleConsultation = ''pending''" "statusHistory exampleConsultation = []"
    by (simp_all add: exampleConsultation_def)
  show ?thesis
    using v t a updateStatus_legal_transition [OF v t a, where now = 5
        and col = "[exampleConsultation]" and rsn = "''ok''"]
    by (auto simp: ex writeChanges_def split: prod.splits)
qed

text \<open>
  C2. For every consultation whose status is one of the four enum values and every
  requested status such that the pair is not in the transition table, \<open>updateStatus\<close>
  fails with the error \<^verbatim>\<open>Invalid status transition from <current> to <requested>\<close>, and
  neither the document nor the collection changes: the status and the length of the status
  history are what they were.
\<close>

theorem updateStatus_illegal_transition:
  assumes "status c \<in> set statusEnum" and "(status c, t) \<notin> set transitionTable"
  shows "case updateStatus now col c t actor rsn of
           (result, c', col') \<Rightarrow>
             result = Inl (Error (''Invalid status transition from '' @ status c @
                                  '' to '' @ t)) \<and>
             c' = c \<and> col' = col \<and>
             status c' = status c \<and>
             length (statusHistory c') = length (statusHistory c)"
  using assms by (simp add: updateStatus_def canChangeStatus_table)

theorem updateStatus_illegal_transition_witness:
  "status exampleConsultation \<in> set statusEnum \<and>
   (status exampleConsultation, ''completed'') \<notin> set transitionTable \<and>
   updateStatus 5 [exampleConsultation] exampleConsultation ''completed'' ''admin1'' [] =
     (Inl (Error ''Invalid status transition from pending to completed''),
      exampleConsultation, [exampleConsultation])"
proof -
  have s: "status exampleConsultation \<in> set statusEnum"
    by (simp add: exampleConsultation_def statusEnum_def)
  have t: "(status exampleConsultation, ''completed'') \<notin> set transitionTable"
    by (simp add: exampleConsultation_def transitionTable_def)
  have st: "status exampleConsultation = ''pending''"
    by (simp add: exampleConsultation_def)
  show ?thesis
    using s t updateStatus_illegal_transition [OF s t, where now = 5 and col = "[exampleConsultation]"
        and actor = "''admin1''" and rsn = "[]"]
    by (auto simp: st split: prod.splits)
qed

text \<open>
  C3. \<open>canChangeStatus\<close> is claimed to return false for every current status outside
  the four enum values. For the status \<^verbatim>\<open>"constructor"\<close>, which is outside the enum, the
  lookup in the object literal finds the inherited property and the call of its missing
  \<^verbatim>\<open>includes\<close> method throws a TypeError, which \<open>updateStatus\<close> passes on. (On the four
  enum values the function follows the table, \<open>canChangeStatus_table\<close>, and on every
  other string that is not an inherited property name it returns false,
  \<open>canChangeStatus_unknown\<close>.)
\<close>

theorem canChangeStatus_inherited_key_throws:
  "''constructor'' \<notin> set statusEnum \<and>
   canChangeStatus (exampleConsultation\<lparr>status := ''constructor''\<rparr>) ''confirmed'' =
     Inl (TypeError ''validTransitions[this.status]?.includes is not a function'') \<and>
   fst (updateStatus 5 [] (exampleConsultation\<lparr>status := ''constructor''\<rparr>) ''confirmed'' ''admin1'' []) =
     Inl (TypeError ''validTransitions[this.status]?.includes is not a function'')"
  by (simp add: statusEnum_def canChangeStatus_def getProperty_def validTransitions_def
      objectPrototypeKeys_def updateStatus_def)

text \<open>
  C4. Every operation that changes a status is claimed to apply the change only when the
  transition table allows it and to append one history entry. \<open>markAsResolved\<close> on a
  pending consultation sets the status to \<^verbatim>\<open>"completed"\<close>, a transition that
  \<open>canChangeStatus\<close> refuses, and leaves the status history as it was.
\<close>

theorem markAsResolved_skips_table_and_history:
  "canChangeStatus exampleConsultation ''completed'' = Inr False \<and>
   markAsResolved None [exampleConsultation] (cid exampleConsultation) =
     (Inr (exampleConsultation\<lparr>status := ''completed''\<rparr>),
      [exampleConsultation\<lparr>status := ''completed''\<rparr>]) \<and>
   statusHistory (exampleConsultation\<lparr>status := ''completed''\<rparr>) =
     statusHistory exampleConsultation"
proof -
  have "validateDoc (exampleConsultation\<lparr>status := ''completed''\<rparr>)"
    using example_valid(1) by (simp add: validateDoc_def statusEnum_def)
  then show ?thesis
    by (simp add: canChangeStatus_def getProperty_def validTransitions_def markAsResolved_def
        findById_def save_def writeChanges_def Let_def example_ids exampleConsultation_def)
qed




section \<open>The status history\<close>

text \<open>
  C5. The status history is claimed to be append-only under every operation.
  \<open>updateConsultation\<close> hands the body to \<^verbatim>\<open>findByIdAndUpdate\<close> as it came: an
  administrator's update whose body carries an empty \<^verbatim>\<open>statusHistory\<close> removes the entry
  of a confirmed consultation. (\<open>updateStatus\<close>, \<open>updateConsultationStatus\<close>,
  \<open>markAsUrgent\<close> and \<open>markAsResolved\<close> keep every entry in place:
  \<open>updateStatus_history_prefix\<close>, \<open>updateConsultationStatus_history\<close>,
  \<open>markAsUrgent_history\<close>, \<open>markAsResolved_history\<close>.)
\<close>

theorem updateConsultation_overwrites_history:
  "role adminUser = ''admin'' \<and>
   statusHistory confirmedConsultation \<noteq> [] \<and>
   updateConsultation [confirmedConsultation] (cid confirmedConsultation) adminUser
       (descriptionBody\<lparr>b_statusHistory := Some []\<rparr>) =
     (Inr (Some (confirmedConsultation
                   \<lparr>description := ''A two-storey family house with a garden, a garage and a large terrace.'',
                    statusHistory := []\<rparr>)),
      [confirmedConsultation
         \<lparr>description := ''A two-storey family house with a garden, a garage and a large terrace.'',
          statusHistory := []\<rparr>]) \<and>
   \<not> historyAppendOnly [confirmedConsultation]
       (snd (updateConsultation [confirmedConsultation] (cid confirmedConsultation) adminUser
               (descriptionBody\<lparr>b_statusHistory := Some []\<rparr>)))"
  by (simp add: example_defs example_ids historyAppendOnly_def updateConsultation_def
      findById_def findByIdAndUpdate_def castUpdate_def validateUpdate_def
      validateDescription_def applyUpdate_def setPath_def replaceDoc_def)

section \<open>Ownership\<close>

text \<open>
  C6. An administrator is claimed to update or delete a consultation whatever its status.
  The gate that rejects the owner of a consultation that is no longer pending does not look
  at the role: an administrator who owns a confirmed consultation gets the same error 400,
  for update and for delete, and the collection is unchanged.
\<close>

theorem admin_owner_update_rejected:
  "role adminOwner = ''admin'' \<and>
   user confirmedConsultation = user_id adminOwner \<and>
   status confirmedConsultation = ''confirmed'' \<and>
   updateConsultation [confirmedConsultation] (cid confirmedConsultation) adminOwner
       descriptionBody =
     (Inl (ErrorResponse ''Cannot update consultation after it has been processed'' 400),
      [confirmedConsultation]) \<and>
   deleteConsultation [confirmedConsultation] (cid confirmedConsultation) adminOwner =
     (Inl (ErrorResponse ''Cannot delete consultation after it has been processed'' 400),
      [confirmedConsultation])"
  by (simp add: example_defs example_ids updateConsultation_def deleteConsultation_def
      findById_def)

text \<open>
  C9. The owner of a consultation is claimed never to change after creation.
  \<open>createConsultation\<close> overrides the \<^verbatim>\<open>user\<close> of the body with the requesting user
  (\<open>createConsultation_user\<close>); \<open>updateConsultation\<close> does not, so the owner of a pending
  consultation hands it to another user with a body that carries that user's id.
  (\<open>updateStatus\<close>, \<open>updateConsultationStatus\<close>, \<open>markAsUrgent\<close> and \<open>markAsResolved\<close>
  keep the owner: \<open>updateStatus_user\<close>, \<open>updateConsultationStatus_owners\<close>,
  \<open>markAsUrgent_owners\<close>, \<open>markAsResolved_owners\<close>.)
\<close>

theorem updateConsultation_overwrites_owner:
  "role ownerUser = ''user'' \<and>
   user exampleConsultation = user_id ownerUser \<and>
   updateConsultation [exampleConsultation] (cid exampleConsultation) ownerUser
       (descriptionBody\<lparr>b_user := Some ''64b7f0c2a1d3e4f5a6b7c8ff''\<rparr>) =
     (Inr (Some (exampleConsultation
                   \<lparr>user := ''64b7f0c2a1d3e4f5a6b7c8ff'',
                    description := ''A two-storey family house with a garden, a garage and a large terrace.''\<rparr>)),
      [exampleConsultation
         \<lparr>user := ''64b7f0c2a1d3e4f5a6b7c8ff'',
          description := ''A two-storey family house with a garden, a garage and a large terrace.''\<rparr>]) \<and>
   owners (snd (updateConsultation [exampleConsultation] (cid exampleConsultation) ownerUser
                  (descriptionBody\<lparr>b_user := Some ''64b7f0c2a1d3e4f5a6b7c8ff''\<rparr>))) \<noteq>
     owners [exampleConsultation]"
  by (simp add: example_defs example_ids owners_def updateConsultation_def findById_def
      findByIdAndUpdate_def castUpdate_def validateUpdate_def validateDescription_def
      applyUpdate_def setPath_def replaceDoc_def)

section \<open>Urgent consultations\<close>

text \<open>
  C7. The urgent list is claimed to hold only pending consultations. The controller
  \<open>getUrgentConsultations\<close> returns a confirmed consultation whose urgency flag is set;
  the static method of the model, which the controller does not call, leaves it out
  (\<open>Consultation_getUrgentConsultations_exact\<close>).
\<close>

theorem getUrgentConsultations_returns_non_pending:
  "isUrgent confirmedConsultation \<and>
   status confirmedConsultation = ''confirmed'' \<and>
   getUrgentConsultations [exampleConsultation, confirmedConsultation] =
     [confirmedConsultation] \<and>
   Consultation_getUrgentConsultations [exampleConsultation, confirmedConsultation] = []"
  by (simp add: example_defs getUrgentConsultations_def jsOr_def findSorted_def matches_def
      Consultation_getUrgentConsultations_def sortNewestFirst_def)

text \<open>
  C8. The urgent count of \<open>getConsultationStats\<close> is the number of consultations of the
  whole collection whose urgency flag is set, whatever their status.
\<close>

theorem stats_urgent_counts_flag:
  "urgent (fst (getConsultationStats col)) = length (filter isUrgent col)"
  by (simp add: getConsultationStats_def aggregateGroup_def Let_def sum_list_cond
      del: One_nat_def)

text \<open>
  It is not the number of urgent pending consultations: a collection holding one urgent
  confirmed consultation has urgent count 1.
\<close>

theorem stats_urgent_counterexample:
  "urgent (fst (getConsultationStats [confirmedConsultation])) \<noteq>
     length (filter urgentPending [confirmedConsultation])"
  by (simp add: getConsultationStats_def aggregateGroup_def Let_def cond_def
      confirmedConsultation_def urgentPending_def)

end
